theory Spec2Isabelle
  imports Complex_Main "HOL-Library.AList"
begin

section \<open>JavaScript values\<close>

text \<open>
  The module \<^verbatim>\<open>www/Media.js\<close> is bookkeeping around three collaborators that live
  outside it: the bridge function \<^verbatim>\<open>exec\<close>, the callbacks supplied by the application,
  and the helpers \<^verbatim>\<open>argscheck.checkArgs\<close> and \<^verbatim>\<open>utils.createUUID\<close>. The embedding keeps
  those outside as well:
  \<^item> a function defined by the application is an opaque value \<open>Fn n\<close>; calling it is
    recorded in the list \<open>user_calls\<close> of the world, and the call returns normally
    without touching the module;
  \<^item> \<^verbatim>\<open>exec\<close> is asynchronous: a call to it is recorded in \<open>exec_calls\<close>, and
    the bridge completes a command later by firing one of the two callbacks it was given
    (\<open>fire\<close> below);
  \<^item> \<^verbatim>\<open>argscheck.checkArgs\<close> and the string-to-number conversion of the language are
    parameters of the functions that use them; \<^verbatim>\<open>utils.createUUID\<close> reads the next
    identifier from a supply held in the world.
  Numbers are never computed with, only stored, compared and coerced, so a number is NaN,
  an infinity or a rational (negative zero is not told apart from zero).

  The registry \<^verbatim>\<open>mediaObjects\<close> is a plain object, so reading \<^verbatim>\<open>mediaObjects[id]\<close>
  also finds what the object inherits from \<^verbatim>\<open>Object.prototype\<close>: the prototype itself
  under \<^verbatim>\<open>__proto__\<close>, its built-in methods, and every property that has been added to
  it. \<^verbatim>\<open>Object.prototype\<close> is taken as the language provides it; the only additions are
  the ones the module makes itself. A function of the application carries no property
  that the module reads, and the identifiers \<^verbatim>\<open>utils.createUUID\<close> returns are ordinary
  property names (none is \<^verbatim>\<open>__proto__\<close>, which an assignment would not create as a
  property of the registry).
\<close>

datatype jsnum = NaN | PosInf | NegInf | Fin rat

datatype jsval = Undefined | Null | Bool bool | Num jsnum | Str string | Fn nat

datatype jserror = TypeError | ArgsCheckFailed | UnknownMediaAction jsval

datatype 'a completion = Normal 'a | Throw jserror

text \<open>The truth value of a value used as a condition (\<^verbatim>\<open>if (media.statusCallback)\<close>).\<close>

fun truthy :: "jsval \<Rightarrow> bool" where
  "truthy Undefined = False"
| "truthy Null = False"
| "truthy (Bool b) = b"
| "truthy (Num n) = (n \<noteq> NaN \<and> n \<noteq> Fin 0)"
| "truthy (Str s) = (s \<noteq> [])"
| "truthy (Fn f) = True"

text \<open>
  \<^verbatim>\<open>Number(value)\<close>. The conversion of a string is the parameter \<open>s2n\<close>; a function
  converts through its source text, which is not a numeral.
\<close>

fun ToNumber :: "(string \<Rightarrow> jsnum) \<Rightarrow> jsval \<Rightarrow> jsnum" where
  "ToNumber s2n Undefined = NaN"
| "ToNumber s2n Null = Fin 0"
| "ToNumber s2n (Bool b) = (if b then Fin 1 else Fin 0)"
| "ToNumber s2n (Num n) = n"
| "ToNumber s2n (Str s) = s2n s"
| "ToNumber s2n (Fn f) = NaN"

definition num_eq :: "jsnum \<Rightarrow> jsnum \<Rightarrow> bool" where
  "num_eq a b = (a \<noteq> NaN \<and> a = b)"

text \<open>\<^verbatim>\<open>===\<close>, the comparison a \<^verbatim>\<open>switch\<close> makes.\<close>

definition strict_eq :: "jsval \<Rightarrow> jsval \<Rightarrow> bool" where
  "strict_eq x y = (x = y \<and> x \<noteq> Num NaN)"

text \<open>
  \<^verbatim>\<open>==\<close>. A function is equal to itself only: compared with a primitive it converts
  to its source text.
\<close>

fun loose_eq :: "(string \<Rightarrow> jsnum) \<Rightarrow> jsval \<Rightarrow> jsval \<Rightarrow> bool" where
  "loose_eq s2n Undefined y = (y = Undefined \<or> y = Null)"
| "loose_eq s2n Null y = (y = Undefined \<or> y = Null)"
| "loose_eq s2n (Num a) y =
     (case y of
        Num b \<Rightarrow> num_eq a b
      | Str t \<Rightarrow> num_eq a (s2n t)
      | Bool c \<Rightarrow> num_eq a (ToNumber s2n (Bool c))
      | _ \<Rightarrow> False)"
| "loose_eq s2n (Str s) y =
     (case y of
        Str t \<Rightarrow> s = t
      | Num b \<Rightarrow> num_eq (s2n s) b
      | Bool c \<Rightarrow> num_eq (s2n s) (ToNumber s2n (Bool c))
      | _ \<Rightarrow> False)"
| "loose_eq s2n (Bool b) y =
     (case y of
        Bool c \<Rightarrow> b = c
      | Num n \<Rightarrow> num_eq (ToNumber s2n (Bool b)) n
      | Str t \<Rightarrow> num_eq (ToNumber s2n (Bool b)) (s2n t)
      | _ \<Rightarrow> False)"
| "loose_eq s2n (Fn f) y = (y = Fn f)"

text \<open>\<^verbatim>\<open>args[i]\<close>: reading past the end of an array gives \<^verbatim>\<open>undefined\<close>.\<close>

definition arg :: "jsval list \<Rightarrow> nat \<Rightarrow> jsval" where
  "arg args i = (if i < length args then args ! i else Undefined)"

section \<open>Handles, the registry and the world\<close>

type_synonym ref = nat

text \<open>
  A Media object: \<^verbatim>\<open>id\<close>, \<^verbatim>\<open>src\<close>, the three callbacks, \<^verbatim>\<open>_duration\<close> and
  \<^verbatim>\<open>_position\<close>.
\<close>

record media =
  m_id :: string
  m_src :: jsval
  successCallback :: jsval
  errorCallback :: jsval
  statusCallback :: jsval
  m_duration :: jsval
  m_position :: jsval

text \<open>
  What \<^verbatim>\<open>exec\<close> can be given as a callback: a value passed through from the caller
  (\<open>Given\<close>), or one of the three closures the module builds, each holding the handle
  \<^verbatim>\<open>player\<close> and, for two of them, the arguments of the method call.
  \<^item> \<open>StopSuccess\<close> is \<^verbatim>\<open>function() { player._position = 0; }\<close>;
  \<^item> \<open>SeekToSuccess\<close> is \<^verbatim>\<open>function(p) { player._position = p; args[1](p); }\<close>;
  \<^item> \<open>GetCurrentPositionSuccess\<close> is
    \<^verbatim>\<open>function(p) { player._position = p; args[0](p) }\<close>.
\<close>

datatype callback =
    Given jsval
  | StopSuccess ref
  | SeekToSuccess ref "jsval list"
  | GetCurrentPositionSuccess ref "jsval list"

text \<open>\<^verbatim>\<open>exec(success, fail, service, action, args)\<close>.\<close>

datatype exec_call = Exec callback callback string string "jsval list"

datatype log_entry = UnhandledStatus jsval | UnknownMedia string

text \<open>
  The two properties the module assigns to what it looks up in the registry,
  \<^verbatim>\<open>_duration\<close> and \<^verbatim>\<open>_position\<close>: the only properties that can come to be added to
  \<^verbatim>\<open>Object.prototype\<close> and to its methods.
\<close>

datatype slot = Duration | Position

definition slot_name :: "slot \<Rightarrow> string" where
  "slot_name s = (case s of Duration \<Rightarrow> ''_duration'' | Position \<Rightarrow> ''_position'')"

text \<open>
  \<open>mediaObjects\<close> holds the own properties of the registry object, in the order of their
  creation. \<open>prototype_props\<close> holds the properties that have been added to
  \<^verbatim>\<open>Object.prototype\<close>, in the order of their creation (they are enumerable), and
  \<open>method_props\<close> the properties that have been added to each of its built-in methods.
  \<open>heap\<close> holds the
  Media objects, \<open>next_ref\<close> is the next object to allocate. \<open>console_error\<close>
  says whether \<^verbatim>\<open>console.error\<close> exists, \<open>console\<close> is what was written to it.
  \<open>uuid_supply\<close> is the sequence of identifiers \<^verbatim>\<open>utils.createUUID\<close> returns,
  \<open>uuid_next\<close> how many were taken.
\<close>

record world =
  mediaObjects :: "(string \<times> ref) list"
  heap :: "ref \<Rightarrow> media"
  next_ref :: ref
  exec_calls :: "exec_call list"
  user_calls :: "(nat \<times> jsval list) list"
  console_error :: bool
  console :: "log_entry list"
  uuid_supply :: "nat \<Rightarrow> string"
  uuid_next :: nat
  prototype_props :: "(slot \<times> jsval) list"
  method_props :: "string \<Rightarrow> (slot \<times> jsval) list"

definition exec :: "callback \<Rightarrow> callback \<Rightarrow> string \<Rightarrow> string \<Rightarrow> jsval list \<Rightarrow> world \<Rightarrow> world" where
  "exec s e service action args w = w\<lparr>exec_calls := exec_calls w @ [Exec s e service action args]\<rparr>"

text \<open>Calling a value: a function of the application is recorded, anything else is a TypeError.\<close>

definition call :: "jsval \<Rightarrow> jsval list \<Rightarrow> world \<Rightarrow> unit completion \<times> world" where
  "call f args w =
     (case f of
        Fn n \<Rightarrow> (Normal (), w\<lparr>user_calls := user_calls w @ [(n, args)]\<rparr>)
      | _ \<Rightarrow> (Throw TypeError, w))"

definition createUUID :: "world \<Rightarrow> string \<times> world" where
  "createUUID w = (uuid_supply w (uuid_next w), w\<lparr>uuid_next := Suc (uuid_next w)\<rparr>)"

definition set_duration :: "ref \<Rightarrow> jsval \<Rightarrow> world \<Rightarrow> world" where
  "set_duration r v w = w\<lparr>heap := (heap w)(r := (heap w r)\<lparr>m_duration := v\<rparr>)\<rparr>"

definition set_position :: "ref \<Rightarrow> jsval \<Rightarrow> world \<Rightarrow> world" where
  "set_position r v w = w\<lparr>heap := (heap w)(r := (heap w r)\<lparr>m_position := v\<rparr>)\<rparr>"

section \<open>The constructor and the static functions\<close>

definition MEDIA_STATE :: jsval where "MEDIA_STATE = Num (Fin 1)"
definition MEDIA_DURATION :: jsval where "MEDIA_DURATION = Num (Fin 2)"
definition MEDIA_POSITION :: jsval where "MEDIA_POSITION = Num (Fin 3)"
definition MEDIA_ERROR :: jsval where "MEDIA_ERROR = Num (Fin 9)"

definition MEDIA_NONE :: jsval where "MEDIA_NONE = Num (Fin 0)"
definition MEDIA_STARTING :: jsval where "MEDIA_STARTING = Num (Fin 1)"
definition MEDIA_RUNNING :: jsval where "MEDIA_RUNNING = Num (Fin 2)"
definition MEDIA_PAUSED :: jsval where "MEDIA_PAUSED = Num (Fin 3)"
definition MEDIA_STOPPED :: jsval where "MEDIA_STOPPED = Num (Fin 4)"

text \<open>
  \<^verbatim>\<open>new Media(src, successCallback, errorCallback, statusCallback, createdCallback)\<close>,
  given the list of its actual arguments. \<open>checkArgs\<close> is \<^verbatim>\<open>argscheck.checkArgs\<close>:
  where it rejects the arguments the constructor throws before doing anything.
\<close>

definition Media :: "(string \<Rightarrow> string \<Rightarrow> jsval list \<Rightarrow> bool) \<Rightarrow> jsval list \<Rightarrow> world \<Rightarrow> ref completion \<times> world" where
  "Media checkArgs arguments w =
     (if \<not> checkArgs ''sFFFF'' ''Media'' arguments then (Throw ArgsCheckFailed, w)
      else
        let this = next_ref w;
            (uuid, w1) = createUUID (w\<lparr>next_ref := Suc this\<rparr>);
            w2 = w1\<lparr>mediaObjects := AList.update uuid this (mediaObjects w1)\<rparr>;
            obj = \<lparr>m_id = uuid, m_src = arg arguments 0,
                   successCallback = arg arguments 1,
                   errorCallback = arg arguments 2,
                   statusCallback = arg arguments 3,
                   m_duration = Num (Fin (- 1)), m_position = Num (Fin (- 1))\<rparr>;
            w3 = w2\<lparr>heap := (heap w2)(this := obj)\<rparr>
        in (Normal this,
            exec (Given (arg arguments 4)) (Given (errorCallback obj)) ''Media'' ''create''
              [Str uuid, m_src obj] w3))"

text \<open>
  What \<^verbatim>\<open>mediaObjects[id]\<close> can find: a registered handle, \<^verbatim>\<open>Object.prototype\<close>
  itself, one of its built-in methods, or the value of a property that was added to it.
\<close>

datatype found = Handle ref | Prototype | Method string | Plain jsval

definition prototype_methods :: "string list" where
  "prototype_methods =
     [''constructor'', ''hasOwnProperty'', ''isPrototypeOf'', ''propertyIsEnumerable'',
      ''toLocaleString'', ''toString'', ''valueOf'', ''__defineGetter__'', ''__defineSetter__'',
      ''__lookupGetter__'', ''__lookupSetter__'']"

text \<open>What the registry object inherits under the name \<open>k\<close>; \<open>None\<close> is \<^verbatim>\<open>undefined\<close>.\<close>

definition inherited :: "world \<Rightarrow> string \<Rightarrow> found option" where
  "inherited w k =
     (if k = ''__proto__'' then Some Prototype
      else if k \<in> set prototype_methods then Some (Method k)
      else (case map_of (map (\<lambda>(s, v). (slot_name s, v)) (prototype_props w)) k of
              None \<Rightarrow> None
            | Some v \<Rightarrow> if v = Undefined then None else Some (Plain v)))"

text \<open>
  \<^verbatim>\<open>Media.get(id)\<close>, that is \<^verbatim>\<open>mediaObjects[id]\<close>: an own property of the registry
  first, an inherited one otherwise; \<open>None\<close> is \<^verbatim>\<open>undefined\<close>.
\<close>

definition Media_get :: "world \<Rightarrow> string \<Rightarrow> found option" where
  "Media_get w k =
     (case map_of (mediaObjects w) k of
        Some r \<Rightarrow> Some (Handle r)
      | None \<Rightarrow> inherited w k)"

section \<open>The command dispatcher\<close>

type_synonym 'a adapter = "ref \<Rightarrow> jsval list \<Rightarrow> world \<Rightarrow> 'a \<times> world"

definition nothing :: "callback adapter" where
  "nothing self args w = (Given Null, w)"

definition id' :: "jsval list adapter" where
  "id' self args w = ([Str (m_id (heap w self))], w)"

definition defaultErrorCallback :: "callback adapter" where
  "defaultErrorCallback self args w = (Given (errorCallback (heap w self)), w)"

definition oneArgument :: "jsval list adapter" where
  "oneArgument player args w = ([Str (m_id (heap w player)), arg args 0], w)"

definition src :: "jsval list adapter" where
  "src player args w = ([Str (m_id (heap w player)), m_src (heap w player)], w)"

definition success :: "callback adapter" where
  "success player args w = (Given (arg args 0), w)"

definition fail :: "callback adapter" where
  "fail player args w = (Given (arg args 1), w)"

text \<open>
  \<^verbatim>\<open>mediaExec(nativeMethod, getOptions, getCallback, getErrorCallback)\<close> returns the
  method; \<open>this\<close> and \<open>args\<close> are the receiver and the arguments of a call of that
  method. The arguments of \<^verbatim>\<open>exec\<close> are evaluated from left to right.
\<close>

definition mediaExec ::
  "string \<Rightarrow> jsval list adapter \<Rightarrow> callback adapter option \<Rightarrow> callback adapter option \<Rightarrow>
   ref \<Rightarrow> jsval list \<Rightarrow> world \<Rightarrow> world" where
  "mediaExec nativeMethod getOptions getCallback getErrorCallback this args w =
     (let getCallback' = (case getCallback of None \<Rightarrow> nothing | Some g \<Rightarrow> g);
          getErrorCallback' = (case getErrorCallback of None \<Rightarrow> nothing | Some g \<Rightarrow> g);
          (s, w1) = getCallback' this args w;
          (e, w2) = getErrorCallback' this args w1;
          (opts, w3) = getOptions this args w2
      in exec s e ''Media'' nativeMethod opts w3)"

definition play :: "ref \<Rightarrow> jsval list \<Rightarrow> world \<Rightarrow> world" where
  "play = mediaExec ''startPlayingAudio''
     (\<lambda>player args w. ([Str (m_id (heap w player)), m_src (heap w player), arg args 1], w))
     (Some success) None"

definition stop :: "ref \<Rightarrow> jsval list \<Rightarrow> world \<Rightarrow> world" where
  "stop = mediaExec ''stopPlayingAudio'' id'
     (Some (\<lambda>player args w. (StopSuccess player, w)))
     (Some defaultErrorCallback)"

definition seekTo :: "ref \<Rightarrow> jsval list \<Rightarrow> world \<Rightarrow> world" where
  "seekTo = mediaExec ''seekToAudio'' oneArgument
     (Some (\<lambda>player args w. (SeekToSuccess player args, w)))
     (Some (\<lambda>player args w. (Given (arg args 2), w)))"

definition pause :: "ref \<Rightarrow> jsval list \<Rightarrow> world \<Rightarrow> world" where
  "pause = mediaExec ''pausePlayingAudio'' id' (Some nothing) (Some defaultErrorCallback)"

definition getDuration :: "ref \<Rightarrow> world \<Rightarrow> jsval" where
  "getDuration this w = m_duration (heap w this)"

definition getCurrentPosition :: "ref \<Rightarrow> jsval list \<Rightarrow> world \<Rightarrow> world" where
  "getCurrentPosition = mediaExec ''getCurrentPositionAudio'' id'
     (Some (\<lambda>player args w. (GetCurrentPositionSuccess player args, w)))
     (Some fail)"

definition startRecord :: "ref \<Rightarrow> jsval list \<Rightarrow> world \<Rightarrow> world" where
  "startRecord = mediaExec ''startRecordingAudio'' src (Some nothing) (Some defaultErrorCallback)"

definition stopRecord :: "ref \<Rightarrow> jsval list \<Rightarrow> world \<Rightarrow> world" where
  "stopRecord = mediaExec ''stopRecordingAudio'' id' (Some nothing) (Some defaultErrorCallback)"

definition pauseRecord :: "ref \<Rightarrow> jsval list \<Rightarrow> world \<Rightarrow> world" where
  "pauseRecord = mediaExec ''pauseRecordingAudio'' id' (Some nothing) (Some defaultErrorCallback)"

definition resumeRecord :: "ref \<Rightarrow> jsval list \<Rightarrow> world \<Rightarrow> world" where
  "resumeRecord = mediaExec ''resumeRecordingAudio'' id' (Some nothing) (Some defaultErrorCallback)"

text \<open>
  The function \<^verbatim>\<open>release\<close> passes where a callback is built deletes the registry entry
  itself and returns nothing, so \<^verbatim>\<open>exec\<close> gets \<^verbatim>\<open>undefined\<close> as its success callback.
\<close>

definition release :: "ref \<Rightarrow> jsval list \<Rightarrow> world \<Rightarrow> world" where
  "release = mediaExec ''release'' id'
     (Some (\<lambda>self args w.
        (Given Undefined, w\<lparr>mediaObjects := AList.delete (m_id (heap w self)) (mediaObjects w)\<rparr>)))
     (Some defaultErrorCallback)"

definition setVolume :: "ref \<Rightarrow> jsval list \<Rightarrow> world \<Rightarrow> world" where
  "setVolume = mediaExec ''setVolume'' oneArgument None None"

definition setRate :: "ref \<Rightarrow> jsval list \<Rightarrow> world \<Rightarrow> world" where
  "setRate = mediaExec ''setRate'' oneArgument None None"

definition getCurrentAmplitude :: "ref \<Rightarrow> jsval list \<Rightarrow> world \<Rightarrow> world" where
  "getCurrentAmplitude = mediaExec ''getCurrentAmplitudeAudio'' id' (Some success) (Some fail)"

text \<open>
  The bridge completing a command: it calls one of the callbacks \<^verbatim>\<open>exec\<close> was given,
  with the arguments \<open>bargs\<close> of its choice. The bridge skips a callback that is not
  set; what a closure of the module does when called is the closure's own body.
\<close>

definition fire :: "callback \<Rightarrow> jsval list \<Rightarrow> world \<Rightarrow> unit completion \<times> world" where
  "fire cb bargs w =
     (case cb of
        Given f \<Rightarrow> (if truthy f then call f bargs w else (Normal (), w))
      | StopSuccess player \<Rightarrow> (Normal (), set_position player (Num (Fin 0)) w)
      | SeekToSuccess player args \<Rightarrow>
          call (arg args 1) [arg bargs 0] (set_position player (arg bargs 0) w)
      | GetCurrentPositionSuccess player args \<Rightarrow>
          call (arg args 0) [arg bargs 0] (set_position player (arg bargs 0) w))"

section \<open>forceStop\<close>

text \<open>
  The order in which \<^verbatim>\<open>for ... in\<close> visits own properties: the names that are array
  indices (a decimal numeral without leading zero, below \<open>2 ^ 32 - 1\<close>) in ascending
  order, then the other names in the order of their creation.
\<close>

definition digit :: "char \<Rightarrow> bool" where
  "digit c = (c \<in> set ''0123456789'')"

definition decimal :: "string \<Rightarrow> int" where
  "decimal k = foldl (\<lambda>n c. 10 * n + (of_char c - 48)) 0 k"

definition array_index :: "string \<Rightarrow> bool" where
  "array_index k =
     (k \<noteq> [] \<and> list_all digit k \<and> (hd k \<noteq> CHR ''0'' \<or> k = ''0'') \<and> decimal k < 2 ^ 32 - 1)"

definition for_in_order :: "string list \<Rightarrow> string list" where
  "for_in_order ks = sort_key decimal (filter array_index ks) @ filter (\<lambda>k. \<not> array_index k) ks"

text \<open>
  The body of the loop of \<^verbatim>\<open>Media.forceStop\<close> for the name \<open>k\<close>. The registry is
  read twice, as the source does; what it finds must be a handle, since nothing else has a
  method \<^verbatim>\<open>stop\<close> or \<^verbatim>\<open>release\<close>: otherwise the call is a TypeError.
\<close>

definition forceStop_body :: "string \<Rightarrow> world \<Rightarrow> unit completion \<times> world" where
  "forceStop_body k w =
     (case Media_get w k of
        Some (Handle r) \<Rightarrow>
          let w1 = stop r [] w in
          (case Media_get w1 k of
             Some (Handle r') \<Rightarrow>
               let w2 = release r' [] w1 in
               (Normal (), w2\<lparr>mediaObjects := AList.delete k (mediaObjects w2)\<rparr>)
           | _ \<Rightarrow> (Throw TypeError, w1))
      | _ \<Rightarrow> (Throw TypeError, w))"

text \<open>
  \<^verbatim>\<open>for (var k in mediaObjects)\<close>, first over the own names the registry had when the
  loop began: a name deleted before its turn is not visited. The result lists the names
  that were visited. This is the enumeration as the language specification describes it;
  no name is deleted before its turn while every handle is registered under its own
  \<^verbatim>\<open>id\<close>, since the body deletes the name it visits and \<^verbatim>\<open>release\<close> the receiver's
  \<^verbatim>\<open>id\<close>.
\<close>

fun forceStop_own :: "string list \<Rightarrow> world \<Rightarrow> string list \<times> unit completion \<times> world" where
  "forceStop_own [] w = ([], Normal (), w)"
| "forceStop_own (k # ks) w =
     (if k \<notin> set (map fst (mediaObjects w)) then forceStop_own ks w
      else (case forceStop_body k w of
              (Throw e, w') \<Rightarrow> ([k], Throw e, w')
            | (Normal u, w') \<Rightarrow>
                (case forceStop_own ks w' of (vs, c, w'') \<Rightarrow> (k # vs, c, w''))))"

text \<open>Then over the enumerable names the registry inherits, but for those already visited.\<close>

fun forceStop_inherited :: "string list \<Rightarrow> world \<Rightarrow> unit completion \<times> world" where
  "forceStop_inherited [] w = (Normal (), w)"
| "forceStop_inherited (k # ks) w =
     (case forceStop_body k w of
        (Throw e, w') \<Rightarrow> (Throw e, w')
      | (Normal u, w') \<Rightarrow> forceStop_inherited ks w')"

definition forceStop :: "world \<Rightarrow> unit completion \<times> world" where
  "forceStop w =
     (case forceStop_own (for_in_order (map fst (mediaObjects w))) w of
        (vs, Throw e, w') \<Rightarrow> (Throw e, w')
      | (vs, Normal u, w') \<Rightarrow>
          forceStop_inherited
            (filter (\<lambda>k. k \<notin> set vs) (map (\<lambda>(s, v). slot_name s) (prototype_props w'))) w')"

section \<open>The status demultiplexer\<close>

text \<open>
  \<^verbatim>\<open>if (media)\<close>: an object is truthy, a plain value as \<open>truthy\<close> says.
\<close>

definition truthy_found :: "found \<Rightarrow> bool" where
  "truthy_found t = (case t of Plain v \<Rightarrow> truthy v | _ \<Rightarrow> True)"

text \<open>
  Reading a callback property of what was found: a handle has it as a field, nothing else
  that the registry can yield has a property of that name.
\<close>

definition callback_of :: "(media \<Rightarrow> jsval) \<Rightarrow> world \<Rightarrow> found \<Rightarrow> jsval" where
  "callback_of field w t = (case t of Handle r \<Rightarrow> field (heap w r) | _ \<Rightarrow> Undefined)"

text \<open>
  \<^verbatim>\<open>media._duration = value\<close> and \<^verbatim>\<open>media._position = value\<close>: a field of a handle,
  a new or changed property of \<^verbatim>\<open>Object.prototype\<close> or of one of its methods; on a plain
  value the assignment changes nothing that the module reads (the module is not in strict
  mode, where it would throw on a primitive value).
\<close>

definition assign :: "slot \<Rightarrow> found \<Rightarrow> jsval \<Rightarrow> world \<Rightarrow> world" where
  "assign s t v w =
     (case t of
        Handle r \<Rightarrow> (case s of Duration \<Rightarrow> set_duration r v w | Position \<Rightarrow> set_position r v w)
      | Prototype \<Rightarrow> w\<lparr>prototype_props := AList.update s v (prototype_props w)\<rparr>
      | Method m \<Rightarrow> w\<lparr>method_props := (method_props w)(m := AList.update s v (method_props w m))\<rparr>
      | Plain u \<Rightarrow> w)"

definition unknown_media :: "string \<Rightarrow> world \<Rightarrow> unit completion \<times> world" where
  "unknown_media k w =
     (if console_error w then (Normal (), w\<lparr>console := console w @ [UnknownMedia k]\<rparr>)
      else (Normal (), w))"

definition onStatus ::
  "(string \<Rightarrow> jsnum) \<Rightarrow> string \<Rightarrow> jsval \<Rightarrow> jsval \<Rightarrow> world \<Rightarrow> unit completion \<times> world" where
  "onStatus s2n k msgType v w =
     (case Media_get w k of
        Some media \<Rightarrow>
          if truthy_found media then
            if strict_eq msgType MEDIA_STATE then
              (case (if truthy (callback_of statusCallback w media)
                     then call (callback_of statusCallback w media) [v] w
                     else (Normal (), w)) of
                 (Throw e, w') \<Rightarrow> (Throw e, w')
               | (Normal u, w') \<Rightarrow>
                   if loose_eq s2n v MEDIA_STOPPED then
                     (if truthy (callback_of successCallback w' media)
                      then call (callback_of successCallback w' media) [] w'
                      else (Normal (), w'))
                   else (Normal (), w'))
            else if strict_eq msgType MEDIA_DURATION then
              (Normal (), assign Duration media v w)
            else if strict_eq msgType MEDIA_ERROR then
              (if truthy (callback_of errorCallback w media)
               then call (callback_of errorCallback w media) [v] w
               else (Normal (), w))
            else if strict_eq msgType MEDIA_POSITION then
              (Normal (), assign Position media (Num (ToNumber s2n v)) w)
            else
              (if console_error w then (Normal (), w\<lparr>console := console w @ [UnhandledStatus msgType]\<rparr>)
               else (Normal (), w))
          else unknown_media k w
      | None \<Rightarrow> unknown_media k w)"

text \<open>
  An inbound message \<^verbatim>\<open>{action, status: {id, msgType, value}}\<close>; \<open>msg_status\<close> is
  \<open>None\<close> when the message has no \<^verbatim>\<open>status\<close>.
\<close>

record status_msg =
  st_id :: string
  st_msgType :: jsval
  st_value :: jsval

record message =
  msg_action :: jsval
  msg_status :: "status_msg option"

definition onMessageFromNative ::
  "(string \<Rightarrow> jsnum) \<Rightarrow> message \<Rightarrow> world \<Rightarrow> unit completion \<times> world" where
  "onMessageFromNative s2n msg w =
     (if loose_eq s2n (msg_action msg) (Str ''status'') then
        (case msg_status msg of
           None \<Rightarrow> (Throw TypeError, w)
         | Some st \<Rightarrow> onStatus s2n (st_id st) (st_msgType st) (st_value st) w)
      else (Throw (UnknownMediaAction (msg_action msg)), w))"

section \<open>Well-formed worlds and an example\<close>

text \<open>
  What the module keeps true of its registry: keys are distinct and every entry points to
  an object that carries the key as its \<^verbatim>\<open>id\<close> (\<open>keyed_by_id\<close>); moreover that
  object is allocated and the key was handed out by \<^verbatim>\<open>utils.createUUID\<close> (\<open>wf_world\<close>).
\<close>

definition keyed_by_id :: "world \<Rightarrow> bool" where
  "keyed_by_id w =
     (distinct (map fst (mediaObjects w)) \<and>
      (\<forall>(k, r) \<in> set (mediaObjects w). m_id (heap w r) = k))"

definition wf_world :: "world \<Rightarrow> bool" where
  "wf_world w =
     (keyed_by_id w \<and>
      (\<forall>(k, r) \<in> set (mediaObjects w).
         r < next_ref w \<and> (\<exists>n < uuid_next w. uuid_supply w n = k)))"

text \<open>The two commands \<^verbatim>\<open>forceStop\<close> gives the bridge for the object \<open>r\<close>.\<close>

definition stop_command :: "world \<Rightarrow> ref \<Rightarrow> exec_call" where
  "stop_command w r =
     Exec (StopSuccess r) (Given (errorCallback (heap w r))) ''Media'' ''stopPlayingAudio''
       [Str (m_id (heap w r))]"

definition release_command :: "world \<Rightarrow> ref \<Rightarrow> exec_call" where
  "release_command w r =
     Exec (Given Undefined) (Given (errorCallback (heap w r))) ''Media'' ''release''
       [Str (m_id (heap w r))]"



text \<open>A callback is usable when it is a function or is not set (falsy).\<close>

definition usable :: "jsval \<Rightarrow> bool" where
  "usable f = (case f of Fn n \<Rightarrow> True | _ \<Rightarrow> \<not> truthy f)"

text \<open>The calls of the application's functions that a guarded invocation adds.\<close>

definition called :: "jsval \<Rightarrow> jsval list \<Rightarrow> (nat \<times> jsval list) list" where
  "called f args = (case f of Fn n \<Rightarrow> [(n, args)] | _ \<Rightarrow> [])"

definition vacant :: media where
  "vacant = \<lparr>m_id = [], m_src = Undefined, successCallback = Undefined,
             errorCallback = Undefined, statusCallback = Undefined,
             m_duration = Undefined, m_position = Undefined\<rparr>"

text \<open>The module when it has just been loaded: \<^verbatim>\<open>var mediaObjects = {}\<close>.\<close>

definition initial_world :: "(nat \<Rightarrow> string) \<Rightarrow> bool \<Rightarrow> world" where
  "initial_world supply ce =
     \<lparr>mediaObjects = [], heap = (\<lambda>r. vacant), next_ref = 0, exec_calls = [],
      user_calls = [], console_error = ce, console = [],
      uuid_supply = supply, uuid_next = 0,
      prototype_props = [], method_props = (\<lambda>m. [])\<rparr>"

text \<open>
  Concrete collaborators for the examples: a check of the argument types \<^verbatim>\<open>s\<close>
  (a string) and \<^verbatim>\<open>F\<close> (a function, or nothing), a conversion that reads the numeral
  \<^verbatim>\<open>4\<close> only, and a supply of pairwise different identifiers.
\<close>

definition type_ok :: "char \<Rightarrow> jsval \<Rightarrow> bool" where
  "type_ok c x =
     (if c = CHR ''s'' then (case x of Str s \<Rightarrow> True | _ \<Rightarrow> False)
      else if c = CHR ''F'' then (case x of Fn n \<Rightarrow> True | Undefined \<Rightarrow> True | Null \<Rightarrow> True | _ \<Rightarrow> False)
      else True)"

definition checkArgs_sF :: "string \<Rightarrow> string \<Rightarrow> jsval list \<Rightarrow> bool" where
  "checkArgs_sF spec functionName args =
     list_all (\<lambda>i. type_ok (spec ! i) (arg args i)) [0 ..< length spec]"

definition s2n_four :: "string \<Rightarrow> jsnum" where
  "s2n_four s = (if s = ''4'' then Fin 4 else NaN)"

definition uuid_x :: "nat \<Rightarrow> string" where
  "uuid_x n = replicate (Suc n) CHR ''x''"

text \<open>
  \<^verbatim>\<open>new Media("a.mp3", f1, f2, f3, f4)\<close> in a fresh module: one handle, object 0,
  registered as \<^verbatim>\<open>x\<close>.
\<close>

definition one_handle :: world where
  "one_handle = snd (Media checkArgs_sF [Str ''a.mp3'', Fn 1, Fn 2, Fn 3, Fn 4] (initial_world uuid_x True))"

text \<open>A second handle, \<^verbatim>\<open>new Media("b.mp3", f5)\<close>: object 1, registered as \<^verbatim>\<open>xx\<close>.\<close>

definition two_handles :: world where
  "two_handles = snd (Media checkArgs_sF [Str ''b.mp3'', Fn 5] one_handle)"



section \<open>Runs of the module\<close>

text \<open>
  Everything that can happen to the module: the application constructs a handle, calls a
  method of some object or \<^verbatim>\<open>Media.forceStop\<close>; the native side reports a status,
  directly or through the message channel; the bridge fires a callback. An exception ends
  the event it is thrown in and leaves the state as it is at that point.
\<close>

datatype media_method =
    Play | Stop | SeekTo | Pause | GetCurrentPosition | StartRecord | StopRecord
  | PauseRecord | ResumeRecord | Release | SetVolume | SetRate | GetCurrentAmplitude

fun invoke :: "media_method \<Rightarrow> ref \<Rightarrow> jsval list \<Rightarrow> world \<Rightarrow> world" where
  "invoke Play = play"
| "invoke Stop = stop"
| "invoke SeekTo = seekTo"
| "invoke Pause = pause"
| "invoke GetCurrentPosition = getCurrentPosition"
| "invoke StartRecord = startRecord"
| "invoke StopRecord = stopRecord"
| "invoke PauseRecord = pauseRecord"
| "invoke ResumeRecord = resumeRecord"
| "invoke Release = release"
| "invoke SetVolume = setVolume"
| "invoke SetRate = setRate"
| "invoke GetCurrentAmplitude = getCurrentAmplitude"

datatype event =
    Construct "jsval list"
  | Invoke media_method ref "jsval list"
  | ForceStop
  | Status string jsval jsval
  | Inbound message
  | Fire callback "jsval list"

fun step ::
  "(string \<Rightarrow> string \<Rightarrow> jsval list \<Rightarrow> bool) \<Rightarrow> (string \<Rightarrow> jsnum) \<Rightarrow> event \<Rightarrow> world \<Rightarrow> world" where
  "step checkArgs s2n (Construct arguments) w = snd (Media checkArgs arguments w)"
| "step checkArgs s2n (Invoke m this args) w = invoke m this args w"
| "step checkArgs s2n ForceStop w = snd (forceStop w)"
| "step checkArgs s2n (Status k msgType v) w = snd (onStatus s2n k msgType v w)"
| "step checkArgs s2n (Inbound msg) w = snd (onMessageFromNative s2n msg w)"
| "step checkArgs s2n (Fire cb bargs) w = snd (fire cb bargs w)"

definition run ::
  "(string \<Rightarrow> string \<Rightarrow> jsval list \<Rightarrow> bool) \<Rightarrow> (string \<Rightarrow> jsnum) \<Rightarrow> event list \<Rightarrow> world \<Rightarrow> world" where
  "run checkArgs s2n evs w = foldl (\<lambda>u ev. step checkArgs s2n ev u) w evs"

text \<open>
  \<open>frame w w'\<close>: from \<open>w\<close> to \<open>w'\<close> the registry, the identifiers of the objects,
  the allocation counter and the identifier supply are the same.
\<close>

definition frame :: "world \<Rightarrow> world \<Rightarrow> bool" where
  "frame w w' =
     (mediaObjects w' = mediaObjects w \<and> (\<forall>r. m_id (heap w' r) = m_id (heap w r)) \<and>
      next_ref w' = next_ref w \<and> uuid_supply w' = uuid_supply w \<and> uuid_next w' = uuid_next w)"

section \<open>Status events\<close>

lemma one_handle_eq:
  "one_handle =
     \<lparr>mediaObjects = [(''x'', 0)],
      heap = (\<lambda>r. vacant)(0 := \<lparr>m_id = ''x'', m_src = Str ''a.mp3'', successCallback = Fn 1,
                   errorCallback = Fn 2, statusCallback = Fn 3,
                   m_duration = Num (Fin (- 1)), m_position = Num (Fin (- 1))\<rparr>),
      next_ref = 1,
      exec_calls = [Exec (Given (Fn 4)) (Given (Fn 2)) ''Media'' ''create'' [Str ''x'', Str ''a.mp3'']],
      user_calls = [], console_error = True, console = [], uuid_supply = uuid_x, uuid_next = 1,
      prototype_props = [], method_props = (\<lambda>m. [])\<rparr>"
  by (simp add: one_handle_def Media_def checkArgs_sF_def type_ok_def arg_def initial_world_def
      createUUID_def exec_def uuid_x_def upt_rec)

lemma call_usable:
  "usable f \<Longrightarrow> (if truthy f then call f args w else (Normal (), w)) =
     (Normal (), w\<lparr>user_calls := user_calls w @ called f args\<rparr>)"
  by (cases f) (simp_all add: usable_def called_def call_def)

lemma Media_get_Handle:
  "Media_get w k = Some (Handle r) \<longleftrightarrow> map_of (mediaObjects w) k = Some r"
  by (auto simp: Media_get_def inherited_def split: option.splits)

lemma onStatus_Handle:
  assumes "Media_get w k = Some (Handle r)"
  shows "onStatus s2n k msgType v w =
     (if strict_eq msgType MEDIA_STATE then
        (case (if truthy (statusCallback (heap w r)) then call (statusCallback (heap w r)) [v] w
               else (Normal (), w)) of
           (Throw e, w') \<Rightarrow> (Throw e, w')
         | (Normal u, w') \<Rightarrow>
             if loose_eq s2n v MEDIA_STOPPED then
               (if truthy (successCallback (heap w' r)) then call (successCallback (heap w' r)) [] w'
                else (Normal (), w'))
             else (Normal (), w'))
      else if strict_eq msgType MEDIA_DURATION then (Normal (), set_duration r v w)
      else if strict_eq msgType MEDIA_ERROR then
        (if truthy (errorCallback (heap w r)) then call (errorCallback (heap w r)) [v] w
         else (Normal (), w))
      else if strict_eq msgType MEDIA_POSITION then
        (Normal (), set_position r (Num (ToNumber s2n v)) w)
      else
        (if console_error w then (Normal (), w\<lparr>console := console w @ [UnhandledStatus msgType]\<rparr>)
         else (Normal (), w)))"
proof -
  have cb: "callback_of field u (Handle r) = field (heap u r)" for field u
    by (simp add: callback_of_def)
  show ?thesis
    unfolding onStatus_def assms option.case cb
    by (simp add: truthy_found_def assign_def)
qed





text \<open>
  C7. A position status for a registered handle stores \<^verbatim>\<open>Number(value)\<close> as the
  position of that handle and does nothing else: in particular no function of the
  application is called.
\<close>

theorem onStatus_position:
  assumes "Media_get w k = Some (Handle r)"
  shows "onStatus s2n k MEDIA_POSITION v w =
           (Normal (), w\<lparr>heap := (heap w)(r := (heap w r)\<lparr>m_position := Num (ToNumber s2n v)\<rparr>)\<rparr>)"
  unfolding onStatus_Handle [OF assms]
  by (simp add: set_position_def strict_eq_def
      MEDIA_POSITION_def MEDIA_STATE_def MEDIA_DURATION_def MEDIA_ERROR_def)

theorem onStatus_position_witness:
  "Media_get one_handle ''x'' = Some (Handle 0) \<and>
   m_position (heap (snd (onStatus s2n_four ''x'' MEDIA_POSITION (Str ''4'') one_handle)) 0) = Num (Fin 4) \<and>
   user_calls (snd (onStatus s2n_four ''x'' MEDIA_POSITION (Str ''4'') one_handle)) = []"
  using onStatus_position [of one_handle "''x''" 0 s2n_four "Str ''4''"]
  by (simp add: one_handle_eq Media_get_def s2n_four_def)

text \<open>
  C1. A state status for a registered handle calls the status callback with the value
  and, when the value \<^verbatim>\<open>==\<close> \<^verbatim>\<open>MEDIA_STOPPED\<close>, the success callback with no
  argument after it; for every other value the status callback only. A callback that is
  not set is skipped. Nothing else changes.
\<close>

theorem onStatus_state:
  assumes "Media_get w k = Some (Handle r)"
    and "usable (statusCallback (heap w r))"
    and "usable (successCallback (heap w r))"
  shows "onStatus s2n k MEDIA_STATE v w =
           (Normal (),
            w\<lparr>user_calls := user_calls w @ called (statusCallback (heap w r)) [v] @
                 (if loose_eq s2n v MEDIA_STOPPED then called (successCallback (heap w r)) [] else [])\<rparr>)"
proof -
  let ?w' = "w\<lparr>user_calls := user_calls w @ called (statusCallback (heap w r)) [v]\<rparr>"
  have st: "strict_eq MEDIA_STATE MEDIA_STATE"
    by (simp add: strict_eq_def MEDIA_STATE_def)
  have first: "(if truthy (statusCallback (heap w r)) then call (statusCallback (heap w r)) [v] w
                else (Normal (), w)) = (Normal (), ?w')"
    using assms(2) by (rule call_usable)
  show ?thesis
    unfolding onStatus_Handle [OF assms(1)] if_P [OF st] first
    using assms(3)
    by (cases "successCallback (heap w r)") (auto simp: usable_def called_def call_def)
qed

theorem onStatus_state_witness:
  "onStatus s2n_four ''x'' MEDIA_STATE (Str ''4'') one_handle =
     (Normal (), one_handle\<lparr>user_calls := [(3, [Str ''4'']), (1, [])]\<rparr>) \<and>
   onStatus s2n_four ''x'' MEDIA_STATE MEDIA_RUNNING one_handle =
     (Normal (), one_handle\<lparr>user_calls := [(3, [MEDIA_RUNNING])]\<rparr>)"
  using onStatus_state [of one_handle "''x''" 0 s2n_four "Str ''4''"]
    onStatus_state [of one_handle "''x''" 0 s2n_four MEDIA_RUNNING]
  by (simp add: one_handle_eq Media_get_def usable_def called_def s2n_four_def num_eq_def
      MEDIA_STOPPED_def MEDIA_RUNNING_def)

section \<open>The methods and forceStop\<close>

lemma stop_eq:
  "stop this args w = w\<lparr>exec_calls := exec_calls w @ [stop_command w this]\<rparr>"
  by (simp add: stop_def mediaExec_def id'_def defaultErrorCallback_def exec_def stop_command_def)

lemma release_eq:
  "release this args w =
     w\<lparr>mediaObjects := AList.delete (m_id (heap w this)) (mediaObjects w),
       exec_calls := exec_calls w @ [release_command w this]\<rparr>"
  by (simp add: release_def mediaExec_def id'_def defaultErrorCallback_def exec_def release_command_def)

lemma Media_get_own:
  "map_of (mediaObjects w) k = Some r \<Longrightarrow> Media_get w k = Some (Handle r)"
  by (simp add: Media_get_def)

lemma Media_get_not_own:
  "map_of (mediaObjects w) k = None \<Longrightarrow> Media_get w k = inherited w k"
  by (simp add: Media_get_def)

lemma inherited_not_Handle: "inherited w k \<noteq> Some (Handle r)"
  by (simp add: inherited_def split: option.splits)

lemma forceStop_body_eq:
  assumes "map_of (mediaObjects w) k = Some r"
  shows "forceStop_body k w =
           (Normal (),
            w\<lparr>mediaObjects := AList.delete k (AList.delete (m_id (heap w r)) (mediaObjects w)),
              exec_calls := exec_calls w @ [stop_command w r, release_command w r]\<rparr>)"
proof -
  have one: "Media_get w k = Some (Handle r)"
    using assms by (rule Media_get_own)
  have inh: "inherited (u\<lparr>exec_calls := x\<rparr>) k = inherited u k" for u x
    by (simp add: inherited_def)
  have two: "Media_get (u\<lparr>exec_calls := x\<rparr>) k = Media_get u k" for u x
    unfolding Media_get_def inh by simp
  show ?thesis
    by (simp add: forceStop_body_def Let_def stop_eq two one release_eq release_command_def
        stop_command_def)
qed

lemma forceStop_body_not_own:
  assumes "map_of (mediaObjects w) k = None"
  shows "forceStop_body k w = (Throw TypeError, w)"
proof (cases "inherited w k")
  case None
  then show ?thesis
    using assms by (simp add: forceStop_body_def Media_get_def)
next
  case (Some t)
  then have "\<forall>r. t \<noteq> Handle r"
    using inherited_not_Handle [of w k] by auto
  then show ?thesis
    using assms Some by (cases t) (auto simp: forceStop_body_def Media_get_def)
qed

lemma key_lookup:
  "k \<in> set (map fst al) \<Longrightarrow> \<exists>r. map_of al k = Some r"
  by (induction al) auto

lemma forceStop_own_skip:
  "k \<notin> set (map fst (mediaObjects w)) \<Longrightarrow> forceStop_own (k # ks) w = forceStop_own ks w"
  by simp

lemma forceStop_own_visit:
  assumes "map_of (mediaObjects w) k = Some r"
  shows "forceStop_own (k # ks) w =
     (k # fst (forceStop_own ks
         (w\<lparr>mediaObjects := AList.delete k (AList.delete (m_id (heap w r)) (mediaObjects w)),
            exec_calls := exec_calls w @ [stop_command w r, release_command w r]\<rparr>)),
      snd (forceStop_own ks
         (w\<lparr>mediaObjects := AList.delete k (AList.delete (m_id (heap w r)) (mediaObjects w)),
            exec_calls := exec_calls w @ [stop_command w r, release_command w r]\<rparr>)))"
proof -
  have "k \<in> set (map fst (mediaObjects w))"
    using assms by (metis map_of_eq_None_iff option.distinct(1) set_map)
  then show ?thesis
    by (simp add: forceStop_body_eq [OF assms] split: prod.splits)
qed

lemma forceStop_own_normal: "fst (snd (forceStop_own ks w)) = Normal ()"
proof (induction ks arbitrary: w)
  case Nil
  show ?case by simp
next
  case (Cons k ks)
  show ?case
  proof (cases "k \<in> set (map fst (mediaObjects w))")
    case False
    show ?thesis
      unfolding forceStop_own_skip [OF False] by (rule Cons.IH)
  next
    case True
    from key_lookup [OF True] obtain r where r: "map_of (mediaObjects w) k = Some r" ..
    show ?thesis
      unfolding forceStop_own_visit [OF r] snd_conv by (rule Cons.IH)
  qed
qed

lemma forceStop_own_keys:
  "set (map fst (mediaObjects (snd (snd (forceStop_own ks w))))) \<subseteq>
     set (map fst (mediaObjects w)) - set ks"
proof (induction ks arbitrary: w)
  case Nil
  show ?case by simp
next
  case (Cons k ks)
  show ?case
  proof (cases "k \<in> set (map fst (mediaObjects w))")
    case False
    have "set (map fst (mediaObjects (snd (snd (forceStop_own ks w))))) \<subseteq>
        set (map fst (mediaObjects w)) - set (k # ks)"
      using Cons.IH [of w] False by auto
    then show ?thesis
      unfolding forceStop_own_skip [OF False] .
  next
    case True
    from key_lookup [OF True] obtain r where r: "map_of (mediaObjects w) k = Some r" ..
    define w' where "w' = w\<lparr>mediaObjects := AList.delete k (AList.delete (m_id (heap w r)) (mediaObjects w)),
                  exec_calls := exec_calls w @ [stop_command w r, release_command w r]\<rparr>"
    have step: "snd (forceStop_own (k # ks) w) = snd (forceStop_own ks w')"
      unfolding w'_def forceStop_own_visit [OF r] by simp
    have keys: "set (map fst (mediaObjects w')) \<subseteq> set (map fst (mediaObjects w)) - {k}"
      by (auto simp: w'_def AList.delete_keys)
    have "set (map fst (mediaObjects (snd (snd (forceStop_own ks w'))))) \<subseteq>
        set (map fst (mediaObjects w)) - set (k # ks)"
      using Cons.IH [of w'] keys by auto
    then show ?thesis
      unfolding step .
  qed
qed

lemma forceStop_own_frame:
  "heap (snd (snd (forceStop_own ks w))) = heap w \<and>
   user_calls (snd (snd (forceStop_own ks w))) = user_calls w \<and>
   prototype_props (snd (snd (forceStop_own ks w))) = prototype_props w \<and>
   uuid_supply (snd (snd (forceStop_own ks w))) = uuid_supply w"
proof (induction ks arbitrary: w)
  case Nil
  show ?case by simp
next
  case (Cons k ks)
  show ?case
  proof (cases "k \<in> set (map fst (mediaObjects w))")
    case False
    show ?thesis
      unfolding forceStop_own_skip [OF False] by (rule Cons.IH)
  next
    case True
    from key_lookup [OF True] obtain r where r: "map_of (mediaObjects w) k = Some r" ..
    define w' where "w' = w\<lparr>mediaObjects := AList.delete k (AList.delete (m_id (heap w r)) (mediaObjects w)),
                  exec_calls := exec_calls w @ [stop_command w r, release_command w r]\<rparr>"
    have step: "snd (forceStop_own (k # ks) w) = snd (forceStop_own ks w')"
      unfolding w'_def forceStop_own_visit [OF r] by simp
    have same: "heap w' = heap w" "user_calls w' = user_calls w"
      "prototype_props w' = prototype_props w" "uuid_supply w' = uuid_supply w"
      by (simp_all add: w'_def)
    have "heap (snd (snd (forceStop_own ks w'))) = heap w' \<and>
          user_calls (snd (snd (forceStop_own ks w'))) = user_calls w' \<and>
          prototype_props (snd (snd (forceStop_own ks w'))) = prototype_props w' \<and>
          uuid_supply (snd (snd (forceStop_own ks w'))) = uuid_supply w'"
      by (rule Cons.IH)
    then show ?thesis
      unfolding step same .
  qed
qed



lemma set_for_in_order: "set (for_in_order ks) = set ks"
  by (auto simp: for_in_order_def)


lemma forceStop_inherited_empty:
  assumes "mediaObjects w = []"
  shows "forceStop_inherited ks w = (if ks = [] then Normal () else Throw TypeError, w)"
proof (cases ks)
  case Nil
  then show ?thesis by simp
next
  case (Cons k ks')
  have "forceStop_body k w = (Throw TypeError, w)"
    using assms by (intro forceStop_body_not_own) simp
  then show ?thesis
    by (simp add: Cons)
qed

lemma forceStop_eq:
  "forceStop w =
     (if filter (\<lambda>k. k \<notin> set (fst (forceStop_own (for_in_order (map fst (mediaObjects w))) w)))
           (map (\<lambda>(s, v). slot_name s) (prototype_props w)) = []
      then Normal () else Throw TypeError,
      snd (snd (forceStop_own (for_in_order (map fst (mediaObjects w))) w)))"
proof -
  define ks where "ks = for_in_order (map fst (mediaObjects w))"
  obtain vs c u where own: "forceStop_own ks w = (vs, c, u)"
    by (cases "forceStop_own ks w")
  have c: "c = Normal ()"
    using forceStop_own_normal [of ks w] own by simp
  have "set (map fst (mediaObjects u)) \<subseteq> {}"
    using forceStop_own_keys [of ks w] own by (simp add: ks_def set_for_in_order)
  then have empty: "mediaObjects u = []"
    by simp
  have props: "prototype_props u = prototype_props w"
    using forceStop_own_frame [of ks w] own by simp
  show ?thesis
    unfolding forceStop_def ks_def [symmetric] own c
    by (simp add: forceStop_inherited_empty [OF empty] props)
qed

lemma forceStop_registry: "mediaObjects (snd (forceStop w)) = []"
proof -
  have "set (map fst (mediaObjects (snd (forceStop w)))) \<subseteq> {}"
    using forceStop_own_keys [of "for_in_order (map fst (mediaObjects w))" w]
    by (simp add: forceStop_eq set_for_in_order)
  then show ?thesis
    by simp
qed

lemma forceStop_frame:
  "heap (snd (forceStop w)) = heap w \<and> user_calls (snd (forceStop w)) = user_calls w \<and>
   prototype_props (snd (forceStop w)) = prototype_props w \<and>
   uuid_supply (snd (forceStop w)) = uuid_supply w"
  using forceStop_own_frame [of "for_in_order (map fst (mediaObjects w))" w]
  by (simp add: forceStop_eq)


lemma seekTo_eq:
  "seekTo this args w =
     w\<lparr>exec_calls := exec_calls w @
         [Exec (SeekToSuccess this args) (Given (arg args 2)) ''Media'' ''seekToAudio''
            [Str (m_id (heap w this)), arg args 0]]\<rparr>"
  by (simp add: seekTo_def mediaExec_def oneArgument_def exec_def)

lemma getCurrentPosition_eq:
  "getCurrentPosition this args w =
     w\<lparr>exec_calls := exec_calls w @
         [Exec (GetCurrentPositionSuccess this args) (Given (arg args 1)) ''Media''
            ''getCurrentPositionAudio'' [Str (m_id (heap w this))]]\<rparr>"
  by (simp add: getCurrentPosition_def mediaExec_def id'_def fail_def exec_def)

lemma heap_call [simp]: "heap (snd (call f args w)) = heap w"
  by (cases f) (simp_all add: call_def)

lemma heap_fire_Given [simp]: "heap (snd (fire (Given f) bargs w)) = heap w"
  by (simp add: fire_def)


lemma two_handles_eq:
  "two_handles =
     \<lparr>mediaObjects = [(''x'', 0), (''xx'', 1)],
      heap = (\<lambda>r. vacant)
        (0 := \<lparr>m_id = ''x'', m_src = Str ''a.mp3'', successCallback = Fn 1,
                errorCallback = Fn 2, statusCallback = Fn 3,
                m_duration = Num (Fin (- 1)), m_position = Num (Fin (- 1))\<rparr>,
         1 := \<lparr>m_id = ''xx'', m_src = Str ''b.mp3'', successCallback = Fn 5,
                errorCallback = Undefined, statusCallback = Undefined,
                m_duration = Num (Fin (- 1)), m_position = Num (Fin (- 1))\<rparr>),
      next_ref = 2,
      exec_calls = [Exec (Given (Fn 4)) (Given (Fn 2)) ''Media'' ''create'' [Str ''x'', Str ''a.mp3''],
                    Exec (Given Undefined) (Given Undefined) ''Media'' ''create'' [Str ''xx'', Str ''b.mp3'']],
      user_calls = [], console_error = True, console = [], uuid_supply = uuid_x, uuid_next = 2,
      prototype_props = [], method_props = (\<lambda>m. [])\<rparr>"
  by (simp add: two_handles_def one_handle_eq Media_def checkArgs_sF_def type_ok_def arg_def
      createUUID_def exec_def uuid_x_def upt_rec)





section \<open>Position updates of the methods\<close>

text \<open>
  C8. A call of \<^verbatim>\<open>seekTo\<close> changes no handle: it gives the bridge the seek command
  with the closure \<open>SeekToSuccess\<close> as success callback and \<^verbatim>\<open>args[2]\<close> as error
  callback. When the bridge fires the success callback with \<open>p\<close>, the position of the
  handle becomes \<open>p\<close> and nothing else in any handle changes, whatever the duration is
  (also when the callback then throws); firing the error callback changes no handle.
\<close>

theorem seekTo_position_on_success_only:
  "heap (seekTo this args w) = heap w \<and>
   mediaObjects (seekTo this args w) = mediaObjects w \<and>
   exec_calls (seekTo this args w) = exec_calls w @
     [Exec (SeekToSuccess this args) (Given (arg args 2)) ''Media'' ''seekToAudio''
        [Str (m_id (heap w this)), arg args 0]] \<and>
   heap (snd (fire (SeekToSuccess this args) bargs w')) =
     (heap w')(this := (heap w' this)\<lparr>m_position := arg bargs 0\<rparr>) \<and>
   m_duration (heap (snd (fire (SeekToSuccess this args) bargs w')) this) = m_duration (heap w' this) \<and>
   heap (snd (fire (Given (arg args 2)) bargs w')) = heap w'"
  by (simp add: seekTo_eq fire_def set_position_def)



text \<open>
  C2, as the source has it. A call of \<^verbatim>\<open>stop\<close>, \<^verbatim>\<open>seekTo\<close> or
  \<^verbatim>\<open>getCurrentPosition\<close> changes no handle; it hands the bridge a closure as success
  callback, and the position changes when the bridge fires that closure: to 0 for
  \<^verbatim>\<open>stop\<close>, to the value the bridge supplies for the other two.
\<close>

theorem local_effects_when_success_fires:
  "heap (stop this args w) = heap w \<and>
   exec_calls (stop this args w) = exec_calls w @ [stop_command w this] \<and>
   stop_command w this = Exec (StopSuccess this) (Given (errorCallback (heap w this))) ''Media''
     ''stopPlayingAudio'' [Str (m_id (heap w this))] \<and>
   fire (StopSuccess this) bargs w' =
     (Normal (), w'\<lparr>heap := (heap w')(this := (heap w' this)\<lparr>m_position := Num (Fin 0)\<rparr>)\<rparr>) \<and>
   heap (seekTo this args w) = heap w \<and>
   exec_calls (seekTo this args w) = exec_calls w @
     [Exec (SeekToSuccess this args) (Given (arg args 2)) ''Media'' ''seekToAudio''
        [Str (m_id (heap w this)), arg args 0]] \<and>
   heap (snd (fire (SeekToSuccess this args) bargs w')) =
     (heap w')(this := (heap w' this)\<lparr>m_position := arg bargs 0\<rparr>) \<and>
   heap (getCurrentPosition this args w) = heap w \<and>
   exec_calls (getCurrentPosition this args w) = exec_calls w @
     [Exec (GetCurrentPositionSuccess this args) (Given (arg args 1)) ''Media''
        ''getCurrentPositionAudio'' [Str (m_id (heap w this))]] \<and>
   heap (snd (fire (GetCurrentPositionSuccess this args) bargs w')) =
     (heap w')(this := (heap w' this)\<lparr>m_position := arg bargs 0\<rparr>)"
  by (simp add: stop_eq seekTo_eq getCurrentPosition_eq fire_def set_position_def stop_command_def)

text \<open>
  The claim C2 as it was stated fails: after \<^verbatim>\<open>stop()\<close> has returned, and before the
  bridge has answered, the position of the handle is what it was (here the initial -1),
  not 0.
\<close>

theorem stop_does_not_reset_at_call:
  "m_position (heap (stop 0 [] one_handle) 0) = Num (Fin (- 1)) \<and>
   m_position (heap (stop 0 [] one_handle) 0) \<noteq> Num (Fin 0)"
  by (simp add: stop_eq one_handle_eq)

section \<open>The constructor\<close>

lemma update_fresh:
  "k \<notin> fst ` set al \<Longrightarrow> AList.update k v al = al @ [(k, v)]"
  by (induction al) auto

lemma Media_eq:
  assumes "checkArgs ''sFFFF'' ''Media'' arguments"
  shows "Media checkArgs arguments w =
           (Normal (next_ref w),
            w\<lparr>mediaObjects := AList.update (uuid_supply w (uuid_next w)) (next_ref w) (mediaObjects w),
              heap := (heap w)(next_ref w :=
                \<lparr>m_id = uuid_supply w (uuid_next w), m_src = arg arguments 0,
                 successCallback = arg arguments 1, errorCallback = arg arguments 2,
                 statusCallback = arg arguments 3,
                 m_duration = Num (Fin (- 1)), m_position = Num (Fin (- 1))\<rparr>),
              next_ref := Suc (next_ref w),
              exec_calls := exec_calls w @
                [Exec (Given (arg arguments 4)) (Given (arg arguments 2)) ''Media'' ''create''
                   [Str (uuid_supply w (uuid_next w)), arg arguments 0]],
              uuid_next := Suc (uuid_next w)\<rparr>)"
  using assms by (simp add: Media_def createUUID_def exec_def Let_def)

lemma wf_fresh_uuid:
  assumes "wf_world w" and "inj (uuid_supply w)"
  shows "uuid_supply w (uuid_next w) \<notin> fst ` set (mediaObjects w)"
proof
  assume "uuid_supply w (uuid_next w) \<in> fst ` set (mediaObjects w)"
  then obtain r where "(uuid_supply w (uuid_next w), r) \<in> set (mediaObjects w)"
    by auto
  with assms(1) obtain n where "n < uuid_next w" and "uuid_supply w n = uuid_supply w (uuid_next w)"
    by (auto simp: wf_world_def)
  with assms(2) show False
    by (auto dest: injD)
qed

lemma wf_Media:
  assumes "checkArgs ''sFFFF'' ''Media'' arguments" and "wf_world w" and "inj (uuid_supply w)"
  shows "wf_world (snd (Media checkArgs arguments w))"
proof -
  have fresh: "uuid_supply w (uuid_next w) \<notin> fst ` set (mediaObjects w)"
    using assms(2,3) by (rule wf_fresh_uuid)
  have old: "r < next_ref w \<and> m_id (heap w r) = k \<and> (\<exists>n < uuid_next w. uuid_supply w n = k)"
    if "(k, r) \<in> set (mediaObjects w)" for k r
    using assms(2) that by (auto simp: wf_world_def keyed_by_id_def)
  have dist: "distinct (map fst (mediaObjects w))"
    using assms(2) by (simp add: wf_world_def keyed_by_id_def)
  show ?thesis
    unfolding Media_eq [of checkArgs arguments w, OF assms(1)] snd_conv wf_world_def keyed_by_id_def
    using fresh dist
    by (auto simp: update_fresh less_Suc_eq dest: old)
qed

text \<open>
  C5. In a well-formed world, and with \<^verbatim>\<open>utils.createUUID\<close> never returning the same
  identifier twice, a constructor call that passes the argument check returns a new object
  whose \<^verbatim>\<open>id\<close> is the identifier just generated; that identifier is not a key of the
  registry before the call, \<^verbatim>\<open>Media.get\<close> maps it to the new object afterwards, and
  the duration and position of the new object are -1. Every handle registered before is
  still registered and unchanged, and the world is well-formed again.
\<close>

theorem Media_registers_fresh:
  assumes "checkArgs ''sFFFF'' ''Media'' arguments" and "wf_world w" and "inj (uuid_supply w)"
  shows "fst (Media checkArgs arguments w) = Normal (next_ref w) \<and>
         m_id (heap (snd (Media checkArgs arguments w)) (next_ref w)) = uuid_supply w (uuid_next w) \<and>
         uuid_supply w (uuid_next w) \<notin> set (map fst (mediaObjects w)) \<and>
         Media_get (snd (Media checkArgs arguments w)) (uuid_supply w (uuid_next w)) =
           Some (Handle (next_ref w)) \<and>
         m_duration (heap (snd (Media checkArgs arguments w)) (next_ref w)) = Num (Fin (- 1)) \<and>
         m_position (heap (snd (Media checkArgs arguments w)) (next_ref w)) = Num (Fin (- 1)) \<and>
         (\<forall>k r. Media_get w k = Some (Handle r) \<longrightarrow>
            Media_get (snd (Media checkArgs arguments w)) k = Some (Handle r) \<and>
            heap (snd (Media checkArgs arguments w)) r = heap w r) \<and>
         wf_world (snd (Media checkArgs arguments w))"
proof -
  have fresh: "uuid_supply w (uuid_next w) \<notin> fst ` set (mediaObjects w)"
    using assms(2,3) by (rule wf_fresh_uuid)
  have kept: "Media_get (snd (Media checkArgs arguments w)) k = Some (Handle r) \<and>
              heap (snd (Media checkArgs arguments w)) r = heap w r"
    if "Media_get w k = Some (Handle r)" for k r
  proof -
    from that have mem: "(k, r) \<in> set (mediaObjects w)"
      by (auto simp: Media_get_Handle dest: map_of_SomeD)
    then have "k \<noteq> uuid_supply w (uuid_next w)"
      using fresh by force
    moreover have "r < next_ref w"
      using assms(2) mem by (auto simp: wf_world_def)
    ultimately show ?thesis
      using that by (simp add: Media_eq [of checkArgs arguments w, OF assms(1)] Media_get_Handle AList.update_conv')
  qed
  show ?thesis
    using fresh kept wf_Media [of checkArgs arguments w, OF assms]
    by (simp add: Media_eq [of checkArgs arguments w, OF assms(1)] Media_get_Handle AList.update_conv')
qed

lemma inj_uuid_x: "inj uuid_x"
  by (rule injI) (simp add: uuid_x_def)

lemma wf_one_handle: "wf_world one_handle"
  by (simp add: wf_world_def keyed_by_id_def one_handle_eq uuid_x_def)

theorem Media_registers_fresh_witness:
  "checkArgs_sF ''sFFFF'' ''Media'' [Str ''b.mp3'', Fn 5] \<and> wf_world one_handle \<and> inj (uuid_supply one_handle) \<and>
   fst (Media checkArgs_sF [Str ''b.mp3'', Fn 5] one_handle) = Normal 1 \<and>
   m_id (heap two_handles 1) = ''xx'' \<and>
   ''xx'' \<notin> set (map fst (mediaObjects one_handle)) \<and>
   Media_get two_handles ''xx'' = Some (Handle 1) \<and>
   m_duration (heap two_handles 1) = Num (Fin (- 1)) \<and>
   m_position (heap two_handles 1) = Num (Fin (- 1)) \<and>
   Media_get two_handles ''x'' = Some (Handle 0) \<and>
   wf_world two_handles"
proof -
  have ok: "checkArgs_sF ''sFFFF'' ''Media'' [Str ''b.mp3'', Fn 5]"
    by (simp add: checkArgs_sF_def type_ok_def arg_def upt_rec)
  have inj: "inj (uuid_supply one_handle)"
    by (simp add: one_handle_eq inj_uuid_x)
  have get: "Media_get one_handle ''x'' = Some (Handle 0)"
    by (simp add: one_handle_eq Media_get_def)
  from Media_registers_fresh [of checkArgs_sF "[Str ''b.mp3'', Fn 5]" one_handle, OF ok wf_one_handle inj] get ok inj wf_one_handle
  show ?thesis
    unfolding two_handles_def [symmetric]
    by (simp add: one_handle_eq uuid_x_def)
qed

section \<open>The inbound channel\<close>





section \<open>release\<close>

text \<open>
  C4, evaluated. \<^verbatim>\<open>release()\<close> on the registered handle \<^verbatim>\<open>x\<close>: when the call
  returns, with the release command only just given to the bridge and no callback fired,
  the handle is already out of the registry, and the success callback of the command is
  \<^verbatim>\<open>undefined\<close>. In general the call removes the entry of the receiver's \<^verbatim>\<open>id\<close> and
  gives the bridge the release command.
\<close>

theorem release_removes_at_call:
  "Media_get one_handle ''x'' = Some (Handle 0) \<and>
   Media_get (release 0 [] one_handle) ''x'' = None \<and>
   exec_calls (release 0 [] one_handle) =
     exec_calls one_handle @ [Exec (Given Undefined) (Given (Fn 2)) ''Media'' ''release'' [Str ''x'']] \<and>
   user_calls (release 0 [] one_handle) = [] \<and>
   fire (Given Undefined) [] (release 0 [] one_handle) = (Normal (), release 0 [] one_handle)"
  by (simp add: release_eq release_command_def one_handle_eq Media_get_def inherited_def
      prototype_methods_def fire_def)

section \<open>The invariant of the registry\<close>

text \<open>
  The well-formedness that the theorems about \<^verbatim>\<open>forceStop\<close> and the constructor
  assume is not an assumption about the module: every event keeps it, so it holds after
  every run from the initial world, provided \<^verbatim>\<open>utils.createUUID\<close> never repeats an
  identifier.
\<close>

lemma frame_refl [simp]: "frame w w"
  by (simp add: frame_def)

lemma frame_trans: "frame w w' \<Longrightarrow> frame w' w'' \<Longrightarrow> frame w w''"
  by (simp add: frame_def)

lemma frame_wf_world: "frame w w' \<Longrightarrow> wf_world w \<Longrightarrow> wf_world w'"
  by (simp add: frame_def wf_world_def keyed_by_id_def)

lemma frame_call: "frame w (snd (call f as w))"
  by (cases f) (simp_all add: call_def frame_def)

lemma frame_guarded_call: "frame w (snd (if truthy f then call f as w else (Normal (), w)))"
  by (simp add: frame_call)

lemma frame_set_position: "frame w (set_position r v w)"
  by (simp add: set_position_def frame_def)

lemma frame_set_duration: "frame w (set_duration r v w)"
  by (simp add: set_duration_def frame_def)

lemma frame_fire: "frame w (snd (fire cb bargs w))"
proof (cases cb)
  case (Given f)
  then show ?thesis
    by (simp add: fire_def frame_call)
next
  case (StopSuccess r)
  then show ?thesis
    by (simp add: fire_def frame_set_position)
next
  case (SeekToSuccess r args)
  then show ?thesis
    using frame_trans [OF frame_set_position frame_call]
    by (simp add: fire_def)
next
  case (GetCurrentPositionSuccess r args)
  then show ?thesis
    using frame_trans [OF frame_set_position frame_call]
    by (simp add: fire_def)
qed

lemma frame_exec: "frame w (exec s e service action args w)"
  by (simp add: exec_def frame_def)

lemma frame_invoke: "m \<noteq> Release \<Longrightarrow> frame w (invoke m this args w)"
  by (cases m)
    (simp_all add: play_def stop_def seekTo_def pause_def getCurrentPosition_def startRecord_def
      stopRecord_def pauseRecord_def resumeRecord_def setVolume_def setRate_def
      getCurrentAmplitude_def mediaExec_def nothing_def id'_def defaultErrorCallback_def
      oneArgument_def src_def success_def fail_def frame_exec)

lemma frame_onStatus: "frame w (snd (onStatus s2n k msgType v w))"
proof (cases "\<exists>r. Media_get w k = Some (Handle r)")
  case False
  show ?thesis
  proof (cases "Media_get w k")
    case None
    then show ?thesis
      by (simp add: onStatus_def unknown_media_def frame_def)
  next
    case (Some t)
    with False have "\<forall>r. t \<noteq> Handle r"
      by simp
    then show ?thesis
      unfolding onStatus_def Some option.case
      by (cases t)
        (simp_all add: truthy_found_def callback_of_def assign_def unknown_media_def frame_def)
  qed
next
  case True
  then obtain r where reg: "Media_get w k = Some (Handle r)" ..
  obtain c w1 where first:
    "(if truthy (statusCallback (heap w r)) then call (statusCallback (heap w r)) [v] w
      else (Normal (), w)) = (c, w1)"
    by (cases "if truthy (statusCallback (heap w r)) then call (statusCallback (heap w r)) [v] w
      else (Normal (), w)")
  have f1: "frame w w1"
    using frame_guarded_call [of w "statusCallback (heap w r)" "[v]"] first by simp
  have f2: "frame w (snd (if truthy (successCallback (heap w1 r)) then call (successCallback (heap w1 r)) [] w1
                   else (Normal (), w1)))"
    using frame_trans [OF f1 frame_guarded_call] .
  have state: "frame w (snd (case (c, w1) of
               (Throw e, w') \<Rightarrow> (Throw e, w')
             | (Normal u, w') \<Rightarrow>
                 if loose_eq s2n v MEDIA_STOPPED then
                   (if truthy (successCallback (heap w' r)) then call (successCallback (heap w' r)) [] w'
                    else (Normal (), w'))
                 else (Normal (), w')))"
    using f1 f2 by (cases c) simp_all
  have log: "frame w (w\<lparr>console := x\<rparr>)" for x
    by (simp add: frame_def)
  show ?thesis
    unfolding onStatus_Handle [OF reg] first
    using state frame_set_duration frame_set_position frame_guarded_call log
    by simp
qed

lemma frame_onMessageFromNative: "frame w (snd (onMessageFromNative s2n msg w))"
  by (simp add: onMessageFromNative_def frame_onStatus split: option.split)

lemma wf_world_delete:
  assumes "wf_world w"
  shows "wf_world (w\<lparr>mediaObjects := AList.delete k (mediaObjects w), exec_calls := x\<rparr>)"
proof -
  have "set (AList.delete k (mediaObjects w)) \<subseteq> set (mediaObjects w)"
    by (auto simp: AList.delete_eq)
  then show ?thesis
    using assms by (auto simp: wf_world_def keyed_by_id_def AList.distinct_delete)
qed

lemma wf_world_forceStop: "wf_world (snd (forceStop w))"
  by (simp add: wf_world_def keyed_by_id_def forceStop_registry)

lemma supply_step: "uuid_supply (step checkArgs s2n ev w) = uuid_supply w"
proof (cases ev)
  case (Construct arguments)
  then show ?thesis
    by (simp add: Media_def createUUID_def exec_def Let_def)
next
  case (Invoke m this args)
  show ?thesis
  proof (cases "m = Release")
    case True
    then show ?thesis
      by (simp add: Invoke release_eq)
  next
    case False
    then show ?thesis
      using frame_invoke [of m w this args] by (simp add: Invoke frame_def)
  qed
next
  case ForceStop
  then show ?thesis
    by (simp add: forceStop_frame)
next
  case (Status k msgType v)
  then show ?thesis
    using frame_onStatus [of w s2n k msgType v] by (simp add: frame_def)
next
  case (Inbound msg)
  then show ?thesis
    using frame_onMessageFromNative [of w s2n msg] by (simp add: frame_def)
next
  case (Fire cb bargs)
  then show ?thesis
    using frame_fire [of w cb bargs] by (simp add: frame_def)
qed

lemma wf_world_step:
  assumes "wf_world w" and "inj (uuid_supply w)"
  shows "wf_world (step checkArgs s2n ev w)"
proof (cases ev)
  case (Construct arguments)
  show ?thesis
  proof (cases "checkArgs ''sFFFF'' ''Media'' arguments")
    case True
    then show ?thesis
      using wf_Media [of checkArgs arguments w] assms by (simp add: Construct)
  next
    case False
    then show ?thesis
      using assms(1) by (simp add: Construct Media_def)
  qed
next
  case (Invoke m this args)
  show ?thesis
  proof (cases "m = Release")
    case True
    then show ?thesis
      using wf_world_delete [OF assms(1)] by (simp add: Invoke release_eq)
  next
    case False
    then show ?thesis
      using frame_wf_world [OF frame_invoke assms(1)] by (simp add: Invoke)
  qed
next
  case ForceStop
  then show ?thesis
    by (simp add: wf_world_forceStop)
next
  case (Status k msgType v)
  then show ?thesis
    using frame_wf_world [OF frame_onStatus assms(1)] by simp
next
  case (Inbound msg)
  then show ?thesis
    using frame_wf_world [OF frame_onMessageFromNative assms(1)] by simp
next
  case (Fire cb bargs)
  then show ?thesis
    using frame_wf_world [OF frame_fire assms(1)] by simp
qed

lemma wf_world_run:
  assumes "wf_world w" and "inj (uuid_supply w)"
  shows "wf_world (run checkArgs s2n evs w) \<and> uuid_supply (run checkArgs s2n evs w) = uuid_supply w"
  using assms
proof (induction evs arbitrary: w)
  case Nil
  then show ?case by (simp add: run_def)
next
  case (Cons ev evs)
  have "wf_world (step checkArgs s2n ev w)"
    using Cons.prems by (rule wf_world_step)
  moreover have "inj (uuid_supply (step checkArgs s2n ev w))"
    using Cons.prems(2) by (simp add: supply_step)
  ultimately have "wf_world (run checkArgs s2n evs (step checkArgs s2n ev w)) \<and>
      uuid_supply (run checkArgs s2n evs (step checkArgs s2n ev w)) = uuid_supply (step checkArgs s2n ev w)"
    by (rule Cons.IH)
  then show ?case
    by (simp add: run_def supply_step)
qed

lemma wf_world_initial: "wf_world (initial_world supply ce)"
  by (simp add: wf_world_def keyed_by_id_def initial_world_def)

lemma reachable_wf_world:
  assumes "inj supply"
  shows "wf_world (run checkArgs s2n evs (initial_world supply ce))"
proof -
  have "inj (uuid_supply (initial_world supply ce))"
    using assms by (simp add: initial_world_def)
  with wf_world_initial show ?thesis
    using wf_world_run by blast
qed

lemma reachable_keyed_by_id:
  assumes "inj supply"
  shows "keyed_by_id (run checkArgs s2n evs (initial_world supply ce))"
  using reachable_wf_world [OF assms] by (simp add: wf_world_def)

lemma reachable_wf_world_example:
  "inj uuid_x \<and>
   wf_world (run checkArgs_sF s2n_four
     [Construct [Str ''a.mp3'', Fn 1, Fn 2, Fn 3, Fn 4], Invoke Stop 0 [],
      Fire (StopSuccess 0) [], Construct [Str ''b.mp3''], Invoke Release 0 [], ForceStop]
     (initial_world uuid_x True))"
  using reachable_wf_world [OF inj_uuid_x, of checkArgs_sF s2n_four
      "[Construct [Str ''a.mp3'', Fn 1, Fn 2, Fn 3, Fn 4], Invoke Stop 0 [],
        Fire (StopSuccess 0) [], Construct [Str ''b.mp3''], Invoke Release 0 [], ForceStop]" True]
    inj_uuid_x
  by simp

end
